theory Spec2Isabelle
  imports Main
begin

section \<open>Python values used by the bot\<close>

text \<open>
  Strings are lists of characters, one \<^typ>\<open>char\<close> per code point (so the model covers
  the code points below 256). The exceptions that the modelled code can raise are values
  of \<open>py_error\<close>.
\<close>

datatype py_error = TypeError | ValueError | AttributeError | KeyError | JSONDecodeError | OSError
  | RequestException

subsection \<open>The builtin \<open>int\<close> on an identifier\<close>

text \<open>
  \<open>int(x)\<close> for the values \<open>msg.get('id')\<close> can have: \<open>None\<close> raises TypeError; a
  string is stripped of surrounding white space, may carry one sign, and is a non-empty
  run of decimal digits in which single underscores may separate digits; more than 4300
  digits are refused (the interpreter's default limit); anything else raises ValueError.
\<close>

definition int_space :: "char \<Rightarrow> bool" where
  "int_space c = (let n = (of_char c :: nat) in (9 \<le> n \<and> n \<le> 13) \<or> n = 32 \<or> n = 133 \<or> n = 160)"

definition is_digit :: "char \<Rightarrow> bool" where
  "is_digit c = (let n = (of_char c :: nat) in 48 \<le> n \<and> n \<le> 57)"

definition digit_val :: "char \<Rightarrow> int" where
  "digit_val c = int (of_char c) - 48"

definition int_strip :: "string \<Rightarrow> string" where
  "int_strip s = rev (dropWhile int_space (rev (dropWhile int_space s)))"

fun read_digits :: "bool \<Rightarrow> string \<Rightarrow> int list \<Rightarrow> int list option" where
  "read_digits prev [] acc = (if prev then Some acc else None)"
| "read_digits prev (c # cs) acc =
     (if is_digit c then read_digits True cs (acc @ [digit_val c])
      else if c = CHR ''_'' \<and> prev then read_digits False cs acc
      else None)"

definition max_str_digits :: nat where
  "max_str_digits = 4300"

definition digits_to_int :: "int list \<Rightarrow> int" where
  "digits_to_int ds = foldl (\<lambda>a d. 10 * a + d) 0 ds"

definition parse_magnitude :: "string \<Rightarrow> int option" where
  "parse_magnitude s =
     (case read_digits False s [] of
        None \<Rightarrow> None
      | Some ds \<Rightarrow> if length ds > max_str_digits then None else Some (digits_to_int ds))"

fun parse_signed :: "string \<Rightarrow> int option" where
  "parse_signed [] = None"
| "parse_signed (c # cs) =
     (if c = CHR ''-'' then map_option uminus (parse_magnitude cs)
      else if c = CHR ''+'' then parse_magnitude cs
      else parse_magnitude (c # cs))"

definition py_int :: "string option \<Rightarrow> py_error + int" where
  "py_int x =
     (case x of
        None \<Rightarrow> Inl TypeError
      | Some s \<Rightarrow> (case parse_signed (int_strip s) of None \<Rightarrow> Inl ValueError | Some i \<Rightarrow> Inr i))"

section \<open>The poll and notify engine (telegram\_bot.py)\<close>

subsection \<open>Data\<close>

text \<open>
  A message summary is the dictionary that \<open>list_messages\<close> builds for one entry of the
  listing: every key but \<open>type\<close> starts as \<open>None\<close>.
\<close>

record message =
  msg_type :: string
  msg_date :: "string option"
  msg_time :: "string option"
  msg_url :: "string option"
  msg_id :: "string option"
  subject :: "string option"
  answered :: "bool option"

text \<open>
  The state file of the bot: missing, unreadable (anything on which opening or decoding
  raises), or a JSON object whose \<open>last_message_id\<close> entry is the given integer
  (\<open>None\<close> when the object has no such key).
\<close>

datatype state_file = Missing | Corrupt | StateJson "int option"

record bot =
  last_message_id :: "int option"
  last_message_state_file :: state_file
  message_checker_running :: bool

text \<open>
  What one cycle receives from outside the engine: the value of \<open>_get_messages_sync\<close>
  (\<open>None\<close> when authentication is required), for the \<open>k\<close>-th delivery attempt of the
  cycle whether sending raised, and whether the state file can be written.
\<close>

datatype delivery = Delivered | DeliveryFailed

record cycle_env =
  fetched :: "message list option"
  sink :: "nat \<Rightarrow> message \<Rightarrow> delivery"
  disk_ok :: bool

datatype cycle_outcome = NotRunning | AuthRequired | NoMessages | CycleError py_error | Completed

subsection \<open>Loading and saving the cursor\<close>

definition load_last_message_state :: "state_file \<Rightarrow> int option" where
  "load_last_message_state f =
     (case f of Missing \<Rightarrow> None | Corrupt \<Rightarrow> None | StateJson v \<Rightarrow> v)"

text \<open>A failed write is caught and logged: the file keeps its content.\<close>

definition save_last_message_state :: "bool \<Rightarrow> int \<Rightarrow> state_file \<Rightarrow> state_file" where
  "save_last_message_state ok message_id f = (if ok then StateJson (Some message_id) else f)"

text \<open>The cursor part of \<open>__init__\<close>: the cursor is loaded, the worker is not running.\<close>

definition init_bot :: "state_file \<Rightarrow> bot" where
  "init_bot f = \<lparr>last_message_id = load_last_message_state f, last_message_state_file = f,
     message_checker_running = False\<rparr>"

subsection \<open>One cycle\<close>

text \<open>Python's truth value of \<open>self.last_message_id\<close>: \<open>None\<close> and \<open>0\<close> are false.\<close>

definition truthy :: "int option \<Rightarrow> bool" where
  "truthy c = (case c of None \<Rightarrow> False | Some i \<Rightarrow> i \<noteq> 0)"

text \<open>
  The loop over the listing: it skips a record whose \<open>answered\<close> is not true, converts
  the identifier (which may raise), raises the running maximum and collects the record when
  the cursor is true and smaller than the identifier.
\<close>

fun diff_loop :: "int option \<Rightarrow> message list \<Rightarrow> int \<Rightarrow> message list
    \<Rightarrow> py_error + (int \<times> message list)" where
  "diff_loop cur [] new_last new_messages = Inr (new_last, new_messages)"
| "diff_loop cur (m # ms) new_last new_messages =
     (if answered m \<noteq> Some True then diff_loop cur ms new_last new_messages
      else case py_int (msg_id m) of
        Inl e \<Rightarrow> Inl e
      | Inr i \<Rightarrow>
          diff_loop cur ms (max new_last i)
            (if truthy cur \<and> i > the cur then new_messages @ [m] else new_messages))"

text \<open>
  \<open>_send_message_notification\<close> fetches the details of the record and sends a text to
  the chat. Its whole body stands in a \<open>try\<close> whose handler catches every exception and
  logs it, so the call returns normally whatever happens: the attempt yields the outcome
  that the environment gives it (\<open>k\<close> counts the attempts of the cycle).
\<close>

definition send_message_notification :: "(nat \<Rightarrow> message \<Rightarrow> delivery) \<Rightarrow> nat \<Rightarrow> message
    \<Rightarrow> message \<times> delivery" where
  "send_message_notification snk k m = (m, snk k m)"

text \<open>The loop \<open>for msg in reversed(new_messages)\<close> over the records it is given.\<close>

fun send_all :: "(nat \<Rightarrow> message \<Rightarrow> delivery) \<Rightarrow> nat \<Rightarrow> message list
    \<Rightarrow> (message \<times> delivery) list" where
  "send_all snk k [] = []"
| "send_all snk k (m # ms) = send_message_notification snk k m # send_all snk (Suc k) ms"

definition check_for_new_messages :: "bot \<Rightarrow> cycle_env
    \<Rightarrow> bot \<times> (message \<times> delivery) list \<times> cycle_outcome" where
  "check_for_new_messages b env =
     (if \<not> message_checker_running b then (b, [], NotRunning)
      else case fetched env of
        None \<Rightarrow> (b, [], AuthRequired)
      | Some messages \<Rightarrow>
          if messages = [] then (b, [], NoMessages)
          else case diff_loop (last_message_id b) messages 0 [] of
            Inl e \<Rightarrow> (b, [], CycleError e)
          | Inr (new_last_message_id, new_messages) \<Rightarrow>
              (b\<lparr>last_message_id := Some new_last_message_id,
                 last_message_state_file :=
                   save_last_message_state (disk_ok env) new_last_message_id
                     (last_message_state_file b)\<rparr>,
               send_all (sink env) 0 (rev new_messages),
               Completed))"

text \<open>
  \<open>message_checker_worker\<close> sets the running flag and repeats the cycle; a run over a
  list of environments is a finite prefix of that loop, with the attempts of each cycle.
\<close>

fun run_cycles :: "bot \<Rightarrow> cycle_env list \<Rightarrow> bot \<times> (message \<times> delivery) list list" where
  "run_cycles b [] = (b, [])"
| "run_cycles b (env # envs) =
     (case check_for_new_messages b env of
        (b', sent, outcome) \<Rightarrow>
          (case run_cycles b' envs of (b'', rest) \<Rightarrow> (b'', sent # rest)))"

definition message_checker_worker :: "bot \<Rightarrow> cycle_env list
    \<Rightarrow> bot \<times> (message \<times> delivery) list list" where
  "message_checker_worker b envs = run_cycles (b\<lparr>message_checker_running := True\<rparr>) envs"

subsection \<open>Vocabulary for the properties of a cycle\<close>

text \<open>
  The records of a listing that the loop does not skip, their identifiers as integers
  (\<open>ident\<close> is the value of the conversion where it succeeds), the maximum the loop
  reaches from its start at 0, and the records it collects for a cursor.
\<close>

definition is_answered :: "message \<Rightarrow> bool" where
  "is_answered m = (answered m = Some True)"

definition ident :: "message \<Rightarrow> int" where
  "ident m = (case py_int (msg_id m) of Inl e \<Rightarrow> 0 | Inr i \<Rightarrow> i)"

definition id_parses :: "message \<Rightarrow> bool" where
  "id_parses m = (case py_int (msg_id m) of Inl e \<Rightarrow> False | Inr i \<Rightarrow> True)"

definition answered_records :: "message list \<Rightarrow> message list" where
  "answered_records ms = filter is_answered ms"

definition answered_ids :: "message list \<Rightarrow> int list" where
  "answered_ids ms = map ident (answered_records ms)"

definition observed_max :: "message list \<Rightarrow> int" where
  "observed_max ms = Max (insert 0 (set (answered_ids ms)))"

definition new_records :: "int option \<Rightarrow> message list \<Rightarrow> message list" where
  "new_records cur ms = filter (\<lambda>m. truthy cur \<and> ident m > the cur) (answered_records ms)"

subsection \<open>Example records and sinks\<close>

definition summary :: "string option \<Rightarrow> bool option \<Rightarrow> message" where
  "summary i a = \<lparr>msg_type = ''E-consult'', msg_date = None, msg_time = None, msg_url = None,
     msg_id = i, subject = None, answered = a\<rparr>"

definition always_delivered :: "nat \<Rightarrow> message \<Rightarrow> delivery" where
  "always_delivered k m = Delivered"

definition never_delivered :: "nat \<Rightarrow> message \<Rightarrow> delivery" where
  "never_delivered k m = DeliveryFailed"

definition fails_first :: "nat \<Rightarrow> message \<Rightarrow> delivery" where
  "fails_first k m = (if k = 0 then DeliveryFailed else Delivered)"

subsection \<open>Vocabulary for runs of cycles\<close>

text \<open>
  The order on cursors (an absent cursor is below every cursor), the cursor that the state
  file holds, and the condition under which a cycle cannot lower the cursor: when the
  cycle runs to completion, its listing has an answered record with an identifier at least
  the current cursor (or the cursor is absent or not positive). \<open>advancing\<close> asks this
  of every cycle of a run, from the state in which that cycle starts.
\<close>

fun cursor_le :: "int option \<Rightarrow> int option \<Rightarrow> bool" where
  "cursor_le None y = True"
| "cursor_le (Some a) None = False"
| "cursor_le (Some a) (Some c) = (a \<le> c)"

definition persisted :: "bot \<Rightarrow> int option" where
  "persisted b = load_last_message_state (last_message_state_file b)"





section \<open>The portal client (medical\_portal\_client.py)\<close>

subsection \<open>Strings\<close>

text \<open>
  \<open>str.isspace\<close>, \<open>str.strip\<close>, \<open>str.lower\<close>, \<open>str.startswith\<close>, the operator \<open>in\<close>
  on strings, \<open>str.replace\<close> (for a non-empty pattern) and \<open>str.join\<close>.
\<close>

definition py_isspace :: "char \<Rightarrow> bool" where
  "py_isspace c = (let n = (of_char c :: nat) in (9 \<le> n \<and> n \<le> 13) \<or> (28 \<le> n \<and> n \<le> 32) \<or> n = 133 \<or> n = 160)"

definition py_strip :: "string \<Rightarrow> string" where
  "py_strip s = rev (dropWhile py_isspace (rev (dropWhile py_isspace s)))"

definition lower_char :: "char \<Rightarrow> char" where
  "lower_char c = (let n = (of_char c :: nat) in
     if (65 \<le> n \<and> n \<le> 90) \<or> (192 \<le> n \<and> n \<le> 222 \<and> n \<noteq> 215) then char_of (n + 32) else c)"

definition py_lower :: "string \<Rightarrow> string" where
  "py_lower s = map lower_char s"

fun startswith :: "string \<Rightarrow> string \<Rightarrow> bool" where
  "startswith s [] = True"
| "startswith [] (p # ps) = False"
| "startswith (c # cs) (p # ps) = (c = p \<and> startswith cs ps)"

fun contains :: "string \<Rightarrow> string \<Rightarrow> bool" where
  "contains [] p = (p = [])"
| "contains (c # cs) p = (startswith (c # cs) p \<or> contains cs p)"

function py_replace :: "string \<Rightarrow> string \<Rightarrow> string \<Rightarrow> string" where
  "py_replace s old new =
     (if old = [] \<or> s = [] then s
      else if startswith s old then new @ py_replace (drop (length old) s) old new
      else hd s # py_replace (tl s) old new)"
  by pat_completeness auto
termination
  by (relation "measure (\<lambda>(s, old, new). length s)") auto

fun py_join :: "string \<Rightarrow> string list \<Rightarrow> string" where
  "py_join sep [] = []"
| "py_join sep [x] = x"
| "py_join sep (x # y # ys) = x @ sep @ py_join sep (y # ys)"

subsection \<open>Parsed documents\<close>

text \<open>
  A response body as BeautifulSoup presents it: a tree of tags (name, attribute dictionary,
  children) and of the strings that \<open>get_text\<close> reads. \<open>descendants\<close> lists the nodes
  below a node in document order; \<open>find_tag\<close> (the method \<open>find\<close>) returns the first matching tag below a node and
  \<open>find_all\<close> all of them.
\<close>

datatype node = Str string | Tag string "(string \<times> string) list" "node list"

fun descendants :: "node \<Rightarrow> node list" where
  "descendants (Str s) = []"
| "descendants (Tag n a cs) = concat (map (\<lambda>c. c # descendants c) cs)"

fun is_tag :: "string \<Rightarrow> node \<Rightarrow> bool" where
  "is_tag nm (Str s) = False"
| "is_tag nm (Tag n a cs) = (n = nm)"

fun get_attr :: "node \<Rightarrow> string \<Rightarrow> string option" where
  "get_attr (Str s) k = None"
| "get_attr (Tag n a cs) k = map_of a k"

definition find_all :: "(node \<Rightarrow> bool) \<Rightarrow> node \<Rightarrow> node list" where
  "find_all P root = filter P (descendants root)"

definition find_tag :: "(node \<Rightarrow> bool) \<Rightarrow> node \<Rightarrow> node option" where
  "find_tag P root = (case find_all P root of [] \<Rightarrow> None | x # xs \<Rightarrow> Some x)"

text \<open>The white-space separated tokens of a \<open>class\<close> attribute.\<close>

fun tokens_acc :: "string \<Rightarrow> string \<Rightarrow> string list" where
  "tokens_acc cur [] = (if cur = [] then [] else [cur])"
| "tokens_acc cur (c # cs) =
     (if py_isspace c then (if cur = [] then tokens_acc [] cs else cur # tokens_acc [] cs)
      else tokens_acc (cur @ [c]) cs)"

definition has_class :: "string \<Rightarrow> node \<Rightarrow> bool" where
  "has_class cls n =
     (case get_attr n ''class'' of
        None \<Rightarrow> False
      | Some v \<Rightarrow> cls \<in> set (tokens_acc [] v) \<or> py_join '' '' (tokens_acc [] v) = cls)"

definition has_attr_value :: "string \<Rightarrow> string \<Rightarrow> node \<Rightarrow> bool" where
  "has_attr_value k v n = (get_attr n k = Some v)"

fun strings_of :: "node \<Rightarrow> string list" where
  "strings_of (Str s) = [s]"
| "strings_of (Tag n a cs) = concat (map strings_of cs)"

text \<open>\<open>get_text(strip=True)\<close>: the stripped strings below a node, the empty ones dropped.\<close>

definition get_text :: "node \<Rightarrow> string" where
  "get_text n = concat (filter (\<lambda>s. s \<noteq> []) (map py_strip (strings_of n)))"

subsection \<open>JSON values\<close>

datatype json = JNull | JBool bool | JNum int | JStr string | JArr "json list"
  | JObj "(string \<times> json) list"

subsection \<open>Requests and responses\<close>

text \<open>
  The cookie jar of the session is the list of keyword dictionaries set into it since it
  was last cleared. A request carries the jar. The portal answers a request, given the
  requests sent before it, with a response or with a failure (any exception of the call).
  A response carries its body as text and as parsed document. The client records the
  requests it has sent.
\<close>

datatype http_method = GET | POST

record request =
  req_method :: http_method
  req_url :: string
  req_data :: "(string \<times> string) list"
  req_file :: "string option"
  allow_redirects :: bool
  req_cookies :: "(string \<times> json) list list"

record response =
  status_code :: nat
  resp_url :: string
  resp_text :: string
  soup :: node

datatype http_result = NetworkError | Response response

type_synonym portal = "request list \<Rightarrow> request \<Rightarrow> http_result"

record client =
  base_url :: string
  is_authenticated :: bool
  cookies :: "(string \<times> json) list list"
  requests_sent :: "request list"

definition session_get :: "portal \<Rightarrow> client \<Rightarrow> string \<Rightarrow> bool \<Rightarrow> http_result \<times> client" where
  "session_get p c u redirects =
     (let r = \<lparr>req_method = GET, req_url = u, req_data = [], req_file = None,
                allow_redirects = redirects, req_cookies = cookies c\<rparr>
      in (p (requests_sent c) r, c\<lparr>requests_sent := requests_sent c @ [r]\<rparr>))"

definition session_post :: "portal \<Rightarrow> client \<Rightarrow> string \<Rightarrow> (string \<times> string) list
    \<Rightarrow> string option \<Rightarrow> http_result \<times> client" where
  "session_post p c u form_data files =
     (let r = \<lparr>req_method = POST, req_url = u, req_data = form_data, req_file = files,
                allow_redirects = True, req_cookies = cookies c\<rparr>
      in (p (requests_sent c) r, c\<lparr>requests_sent := requests_sent c @ [r]\<rparr>))"

text \<open>\<open>raise_for_status\<close> raises for the status codes 400 to 599.\<close>

definition raise_for_status :: "response \<Rightarrow> bool" where
  "raise_for_status r = (400 \<le> status_code r \<and> status_code r < 600)"

subsection \<open>The liveness probe\<close>

text \<open>
  \<open>_is_session_valid\<close>: one GET of the protected page with \<open>allow_redirects=False\<close>;
  status 303 is the redirect to the login page; any exception gives \<open>False\<close>.
\<close>

definition is_session_valid :: "portal \<Rightarrow> client \<Rightarrow> bool \<times> client" where
  "is_session_valid p c =
     (case session_get p c (base_url c @ ''/en/safe'') False of
        (NetworkError, c') \<Rightarrow> (False, c')
      | (Response r, c') \<Rightarrow> (status_code r \<noteq> 303, c'))"

subsection \<open>Loading the session snapshot\<close>

text \<open>
  The session file: absent, one on which \<open>open\<close> or \<open>json.load\<close> raises the given
  exception (JSONDecodeError for text that is not JSON), or one that holds a JSON value.
  \<open>cookie_check\<close> stands for \<open>self.session.cookies.set(**cookie)\<close> of the requests
  library: the exception it raises for a keyword dictionary, if any.
\<close>

datatype session_file = NoFile | ReadRaises py_error | Holds json

text \<open>\<open>session_data.get('cookies', [])\<close>: only a dictionary has \<open>get\<close>.\<close>

definition get_cookies :: "json \<Rightarrow> py_error + json" where
  "get_cookies session_data =
     (case session_data of
        JObj kv \<Rightarrow> Inr (case map_of kv ''cookies'' of None \<Rightarrow> JArr [] | Some v \<Rightarrow> v)
      | _ \<Rightarrow> Inl AttributeError)"

text \<open>The items of \<open>for cookie in ...\<close>: a list, the keys of a dictionary, the characters
  of a string; the other values are not iterable.\<close>

definition iterate :: "json \<Rightarrow> py_error + json list" where
  "iterate v =
     (case v of
        JArr xs \<Rightarrow> Inr xs
      | JObj kv \<Rightarrow> Inr (map (\<lambda>(k, x). JStr k) kv)
      | JStr s \<Rightarrow> Inr (map (\<lambda>ch. JStr [ch]) s)
      | _ \<Rightarrow> Inl TypeError)"

text \<open>The loop that restores the cookies: \<open>**cookie\<close> needs a dictionary.\<close>

fun restore_cookies :: "((string \<times> json) list \<Rightarrow> py_error option) \<Rightarrow> json list
    \<Rightarrow> (string \<times> json) list list \<Rightarrow> py_error option \<times> (string \<times> json) list list" where
  "restore_cookies chk [] jar = (None, jar)"
| "restore_cookies chk (x # xs) jar =
     (case x of
        JObj kv \<Rightarrow>
          (case chk kv of Some e \<Rightarrow> (Some e, jar) | None \<Rightarrow> restore_cookies chk xs (jar @ [kv]))
      | _ \<Rightarrow> (Some TypeError, jar))"

text \<open>The handler \<open>except (json.JSONDecodeError, KeyError)\<close>: it clears the jar; every
  other exception leaves \<open>_load_session\<close>.\<close>

definition load_handler :: "py_error \<Rightarrow> client \<Rightarrow> py_error + client" where
  "load_handler e c =
     (if e = JSONDecodeError \<or> e = KeyError then Inr (c\<lparr>cookies := []\<rparr>) else Inl e)"

definition load_session :: "((string \<times> json) list \<Rightarrow> py_error option) \<Rightarrow> portal
    \<Rightarrow> session_file \<Rightarrow> client \<Rightarrow> py_error + client" where
  "load_session chk p f c =
     (case f of
        NoFile \<Rightarrow> Inr c
      | ReadRaises e \<Rightarrow> load_handler e c
      | Holds session_data \<Rightarrow>
          (case get_cookies session_data of
             Inl e \<Rightarrow> load_handler e c
           | Inr v \<Rightarrow>
               (case iterate v of
                  Inl e \<Rightarrow> load_handler e c
                | Inr xs \<Rightarrow>
                    (case restore_cookies chk xs (cookies c) of
                       (Some e, jar) \<Rightarrow> load_handler e (c\<lparr>cookies := jar\<rparr>)
                     | (None, jar) \<Rightarrow>
                         (case is_session_valid p (c\<lparr>cookies := jar\<rparr>) of
                            (True, c') \<Rightarrow> Inr (c'\<lparr>is_authenticated := True\<rparr>)
                          | (False, c') \<Rightarrow> Inr c')))))"

subsection \<open>Hidden form fields\<close>

text \<open>Assignment to a key of a dictionary, which keeps the position of a key it has.\<close>

fun dict_set :: "string \<Rightarrow> 'v \<Rightarrow> (string \<times> 'v) list \<Rightarrow> (string \<times> 'v) list" where
  "dict_set k v [] = [(k, v)]"
| "dict_set k v ((k', v') # kvs) = (if k' = k then (k, v) # kvs else (k', v') # dict_set k v kvs)"

definition hidden_input :: "node \<Rightarrow> bool" where
  "hidden_input n = (is_tag ''input'' n \<and> has_attr_value ''type'' ''hidden'' n)"

definition add_field :: "(string \<times> string) list \<Rightarrow> node \<Rightarrow> (string \<times> string) list" where
  "add_field form_data input_field =
     (case get_attr input_field ''name'' of
        None \<Rightarrow> form_data
      | Some nm \<Rightarrow>
          if nm = [] then form_data
          else dict_set nm (case get_attr input_field ''value'' of None \<Rightarrow> [] | Some v \<Rightarrow> v)
                 form_data)"

definition get_form_data :: "node \<Rightarrow> (string \<times> string) list" where
  "get_form_data html = foldl add_field [] (find_all hidden_input html)"

subsection \<open>Asking a question\<close>

text \<open>
  What the file system says of a path: \<open>os.path.exists\<close> is true for the last two, and
  \<open>open\<close> raises for a path that exists and cannot be opened.
\<close>

datatype path_status = PathAbsent | PathUnopenable | PathOpenable

definition open_attachment :: "(string \<Rightarrow> path_status) \<Rightarrow> string option
    \<Rightarrow> py_error + string option" where
  "open_attachment fs attachment_path =
     (case attachment_path of
        None \<Rightarrow> Inr None
      | Some path \<Rightarrow>
          if path \<noteq> [] \<and> fs path \<noteq> PathAbsent
          then (if fs path = PathOpenable then Inr (Some path) else Inl OSError)
          else Inr None)"

definition submission_ok :: "string \<Rightarrow> bool" where
  "submission_ok body =
     (let t = py_lower body in
      if contains t ''question'' \<and> (contains t ''submitted'' \<or> contains t ''sent'') then True
      else if contains t ''error'' then False
      else True)"

definition ask_question :: "portal \<Rightarrow> (string \<Rightarrow> path_status) \<Rightarrow> client \<Rightarrow> string \<Rightarrow> bool
    \<Rightarrow> string option \<Rightarrow> bool \<times> client" where
  "ask_question p fs c question draft attachment_path =
     (if \<not> is_authenticated c then (False, c)
      else case session_get p c (base_url c @ ''/en/consult'') True of
        (NetworkError, c1) \<Rightarrow> (False, c1)
      | (Response r1, c1) \<Rightarrow>
          if raise_for_status r1 then (False, c1)
          else
            (let form_data =
                   dict_set ''draft'' (if draft then ''on'' else [])
                     (dict_set ''question'' question (get_form_data (soup r1)))
             in case open_attachment fs attachment_path of
               Inl e \<Rightarrow> (False, c1)
             | Inr files \<Rightarrow>
                 (case session_post p c1 (base_url c @ ''/en/consult'') form_data files of
                    (NetworkError, c2) \<Rightarrow> (False, c2)
                  | (Response r2, c2) \<Rightarrow>
                      if raise_for_status r2 then (False, c2)
                      else (submission_ok (resp_text r2), c2))))"

subsection \<open>The command \<open>/ask\<close> of the bot\<close>

text \<open>
  \<open>_ensure_authenticated\<close> probes only a client that believes it is authenticated;
  \<open>_ask_question_sync\<close> gives \<open>None\<close> when authentication is required. The replies of
  the command are the messages it sends to the chat.
\<close>

definition ensure_authenticated :: "portal \<Rightarrow> client \<Rightarrow> bool \<times> client" where
  "ensure_authenticated p c = (if is_authenticated c then is_session_valid p c else (False, c))"

definition ask_question_sync :: "portal \<Rightarrow> (string \<Rightarrow> path_status) \<Rightarrow> client \<Rightarrow> string
    \<Rightarrow> bool option \<times> client" where
  "ask_question_sync p fs c question =
     (case ensure_authenticated p c of
        (False, c') \<Rightarrow> (None, c')
      | (True, c') \<Rightarrow> (case ask_question p fs c' question False None of (r, c'') \<Rightarrow> (Some r, c'')))"

datatype reply = UsageReply | TooLongReply | SubmittingReply | AuthRequiredReply
  | SubmittedReply | FailedReply

definition ask_command :: "portal \<Rightarrow> (string \<Rightarrow> path_status) \<Rightarrow> client \<Rightarrow> bool \<Rightarrow> string list
    \<Rightarrow> reply list \<times> client" where
  "ask_command p fs c authorized args =
     (if \<not> authorized then ([], c)
      else if args = [] then ([UsageReply], c)
      else
        (let question = py_join '' '' args in
         if length question > 600 then ([TooLongReply], c)
         else case ask_question_sync p fs c question of
           (None, c') \<Rightarrow> ([SubmittingReply, AuthRequiredReply], c')
         | (Some True, c') \<Rightarrow> ([SubmittingReply, SubmittedReply], c')
         | (Some False, c') \<Rightarrow> ([SubmittingReply, FailedReply], c')))"

subsection \<open>The detail page of a message\<close>

record message_details =
  d_url :: string
  d_content :: string
  d_question :: string
  d_answer :: string
  d_date :: "string option"
  d_time :: "string option"
  d_sender :: "string option"
  d_subject :: "string option"
  d_attachments :: "(string \<times> string) list"

definition extract_date :: "node \<Rightarrow> string option" where
  "extract_date page =
     (case find_tag (\<lambda>n. is_tag ''p'' n \<and> has_class ''small-spacer-bottom'' n) page of
        None \<Rightarrow> None
      | Some date_elem \<Rightarrow>
          (let date_text = get_text date_elem in
           if startswith date_text ''Date:'' then Some (py_strip (py_replace date_text ''Date:'' []))
           else None))"

definition question_elem :: "node \<Rightarrow> node option" where
  "question_elem page = find_tag (\<lambda>n. is_tag ''div'' n \<and> has_attr_value ''data-speech'' ''question'' n) page"

definition answer_elem :: "node \<Rightarrow> node option" where
  "answer_elem page = find_tag (\<lambda>n. is_tag ''div'' n \<and> has_attr_value ''data-speech'' ''answer'' n) page"

definition extract_question :: "node \<Rightarrow> string" where
  "extract_question page =
     (case question_elem page of
        None \<Rightarrow> []
      | Some q \<Rightarrow>
          (case find_tag (\<lambda>n. is_tag ''div'' n \<and> has_class ''content'' n) q of
             None \<Rightarrow> []
           | Some question_content \<Rightarrow> get_text question_content))"

definition extract_answer :: "node \<Rightarrow> string" where
  "extract_answer page =
     (case answer_elem page of
        None \<Rightarrow> []
      | Some a \<Rightarrow>
          (case find_tag (is_tag ''div'') a of
             None \<Rightarrow> []
           | Some answer_content \<Rightarrow> get_text answer_content))"

definition combine_content :: "string \<Rightarrow> string \<Rightarrow> string" where
  "combine_content q a =
     py_join [CHR 0x0A, CHR 0x0A]
       ((if q \<noteq> [] then [''Question: '' @ q] else []) @ (if a \<noteq> [] then [''Answer: '' @ a] else []))"

definition extract_sender :: "node \<Rightarrow> string option" where
  "extract_sender page =
     (case answer_elem page of
        None \<Rightarrow> None
      | Some a \<Rightarrow> map_option get_text (find_tag (is_tag ''h2'') a))"

definition extract_subject :: "node \<Rightarrow> string option" where
  "extract_subject page =
     map_option get_text (find_tag (\<lambda>n. is_tag ''h1'' n \<and> has_class ''no-spacer-bottom'' n) page)"

definition attachment_exts :: "string list" where
  "attachment_exts = [''.pdf'', ''.doc'', ''.docx'', ''.jpg'', ''.png'']"

definition attachment_link :: "node \<Rightarrow> bool" where
  "attachment_link n =
     (is_tag ''a'' n \<and>
      (case get_attr n ''href'' of
         None \<Rightarrow> False
       | Some x \<Rightarrow> x \<noteq> [] \<and> list_ex (\<lambda>ext. contains (py_lower x) ext) attachment_exts))"

text \<open>
  \<open>urljoin\<close> of the standard library is a parameter: \<open>None\<close> where it raises ValueError
  (as for a link with an unbalanced bracket in its host). An exception in the loop over
  the attachment links reaches the handler of \<open>get_message_details\<close>.
\<close>

fun build_attachments :: "(string \<Rightarrow> string \<Rightarrow> string option) \<Rightarrow> string \<Rightarrow> node list
    \<Rightarrow> (string \<times> string) list option" where
  "build_attachments urljoin base [] = Some []"
| "build_attachments urljoin base (link # links) =
     (case urljoin base (case get_attr link ''href'' of None \<Rightarrow> [] | Some h \<Rightarrow> h) of
        None \<Rightarrow> None
      | Some u \<Rightarrow> map_option ((#) (get_text link, u)) (build_attachments urljoin base links))"

definition get_message_details :: "(string \<Rightarrow> string \<Rightarrow> string option) \<Rightarrow> portal \<Rightarrow> client
    \<Rightarrow> string \<Rightarrow> message_details option \<times> client" where
  "get_message_details urljoin p c message_url =
     (if \<not> is_authenticated c then (None, c)
      else case session_get p c message_url True of
        (NetworkError, c') \<Rightarrow> (None, c')
      | (Response r, c') \<Rightarrow>
          if raise_for_status r then (None, c')
          else
            (case build_attachments urljoin (base_url c) (find_all attachment_link (soup r)) of
               None \<Rightarrow> (None, c')
             | Some atts \<Rightarrow>
                 (Some \<lparr>d_url = message_url,
                        d_content = combine_content (extract_question (soup r)) (extract_answer (soup r)),
                        d_question = extract_question (soup r),
                        d_answer = extract_answer (soup r),
                        d_date = extract_date (soup r),
                        d_time = None,
                        d_sender = extract_sender (soup r),
                        d_subject = extract_subject (soup r),
                        d_attachments = atts\<rparr>, c')))"

subsection \<open>The listing of a folder\<close>

text \<open>
  \<open>str.split(sep)\<close> for a non-empty separator, and the \<open>n\<close>-th item of a list where
  the source indexes one.
\<close>

function py_split_acc :: "string \<Rightarrow> string \<Rightarrow> string \<Rightarrow> string list" where
  "py_split_acc cur s sep =
     (if s = [] then [cur]
      else if sep \<noteq> [] \<and> startswith s sep then cur # py_split_acc [] (drop (length sep) s) sep
      else py_split_acc (cur @ [hd s]) (tl s) sep)"
  by pat_completeness auto
termination
  by (relation "measure (\<lambda>(cur, s, sep). length s)") auto

definition py_split :: "string \<Rightarrow> string \<Rightarrow> string list" where
  "py_split s sep = py_split_acc [] s sep"

text \<open>
  \<open>href.split(key)[1].split('&')[0]\<close>, evaluated only when \<open>key\<close> occurs in \<open>href\<close>
  (so that the item 1 exists).
\<close>

definition query_param :: "string \<Rightarrow> string \<Rightarrow> string option" where
  "query_param href key =
     (if contains href key
      then (case py_split href key of
              a # b # rest \<Rightarrow> (case py_split b ''&'' of x # xs \<Rightarrow> Some x | [] \<Rightarrow> None)
            | _ \<Rightarrow> None)
      else None)"

text \<open>
  The date and time of an entry: the date of the link's address stays unless the text of
  the \<open>span\<close> has at least two white-space separated parts that start with \<open>Today\<close>, or
  at least three parts.
\<close>

definition link_date_time :: "string option \<Rightarrow> node \<Rightarrow> string option \<times> string option" where
  "link_date_time url_date link =
     (case find_tag (is_tag ''span'') link of
        None \<Rightarrow> (url_date, None)
      | Some span_elem \<Rightarrow>
          (let timestamp_text = get_text span_elem; parts = tokens_acc [] timestamp_text in
           if timestamp_text \<noteq> [] \<and> length parts \<ge> 2 then
             (if py_lower (parts ! 0) = ''today'' then (Some ''Today'', Some (parts ! 1))
              else if length parts \<ge> 4
                then (Some (parts ! 0 @ '' '' @ parts ! 1 @ '' '' @ parts ! 2), Some (parts ! 3))
              else if length parts \<ge> 3
                then (Some (parts ! 0 @ '' '' @ parts ! 1), Some (parts ! 2))
              else (url_date, None))
           else (url_date, None)))"

text \<open>
  One entry of the listing. \<open>None\<close> stands for the ValueError of \<open>urljoin\<close>, which
  reaches the handler of \<open>list_messages\<close>.
\<close>

definition entry_of_link :: "node \<Rightarrow> string option \<Rightarrow> string option \<Rightarrow> string option \<Rightarrow> message" where
  "entry_of_link link u i url_date =
     (case link_date_time url_date link of
        (d, t) \<Rightarrow>
          \<lparr>msg_type = ''E-consult'', msg_date = d, msg_time = t, msg_url = u, msg_id = i,
           subject = map_option get_text (find_tag (is_tag ''strong'') link),
           answered = map_option (\<lambda>v. py_lower v = ''true'') (get_attr link ''data-reaction'')\<rparr>)"

definition parse_link :: "(string \<Rightarrow> string \<Rightarrow> string option) \<Rightarrow> string \<Rightarrow> node \<Rightarrow> message option" where
  "parse_link urljoin base link =
     (let href = (case get_attr link ''href'' of None \<Rightarrow> [] | Some h \<Rightarrow> h) in
      if contains href ''/safe/consult?''
      then (case urljoin base href of
              None \<Rightarrow> None
            | Some u \<Rightarrow>
                Some (entry_of_link link (Some u) (query_param href ''id='') (query_param href ''date='')))
      else Some (entry_of_link link None None None))"

fun parse_links :: "(string \<Rightarrow> string \<Rightarrow> string option) \<Rightarrow> string \<Rightarrow> node list
    \<Rightarrow> message list option" where
  "parse_links urljoin base [] = Some []"
| "parse_links urljoin base (link # links) =
     (case parse_link urljoin base link of
        None \<Rightarrow> None
      | Some m \<Rightarrow> map_option ((#) m) (parse_links urljoin base links))"

definition list_messages :: "(string \<Rightarrow> string \<Rightarrow> string option) \<Rightarrow> portal \<Rightarrow> client \<Rightarrow> string
    \<Rightarrow> message list \<times> client" where
  "list_messages urljoin p c folder =
     (if \<not> is_authenticated c then ([], c)
      else case session_get p c (base_url c @ ''/en/correspondence?tab=correspondence'') True of
        (NetworkError, c') \<Rightarrow> ([], c')
      | (Response r, c') \<Rightarrow>
          if raise_for_status r then ([], c')
          else
            (case find_tag (\<lambda>n. is_tag ''div'' n \<and> has_attr_value ''id'' folder n) (soup r) of
               None \<Rightarrow> ([], c')
             | Some folder_div \<Rightarrow>
                 (case find_tag (\<lambda>n. is_tag ''div'' n \<and> has_class ''button-list'' n) folder_div of
                    None \<Rightarrow> ([], c')
                  | Some button_list \<Rightarrow>
                      (case parse_links urljoin (base_url c)
                              (find_all (\<lambda>n. is_tag ''a'' n \<and> get_attr n ''href'' \<noteq> None) button_list) of
                         None \<Rightarrow> ([], c')
                       | Some messages \<Rightarrow> (messages, c')))))"

text \<open>\<open>_get_messages_sync\<close> of the bot: \<open>None\<close> when authentication is required.\<close>

definition get_messages_sync :: "(string \<Rightarrow> string \<Rightarrow> string option) \<Rightarrow> portal \<Rightarrow> client
    \<Rightarrow> message list option \<times> client" where
  "get_messages_sync urljoin p c =
     (case ensure_authenticated p c of
        (False, c') \<Rightarrow> (None, c')
      | (True, c') \<Rightarrow> (case list_messages urljoin p c' ''inbox'' of (ms, c'') \<Rightarrow> (Some ms, c'')))"

subsection \<open>Vocabulary and examples for the client\<close>

text \<open>
  The request that the liveness probe sends, a portal that answers every request with a
  given status and page, a portal that is unreachable, a client that believes it is
  authenticated, and pages.
\<close>

definition probe_request :: "client \<Rightarrow> request" where
  "probe_request c = \<lparr>req_method = GET, req_url = base_url c @ ''/en/safe'', req_data = [],
     req_file = None, allow_redirects = False, req_cookies = cookies c\<rparr>"

definition portal_page :: "nat \<Rightarrow> node \<Rightarrow> portal" where
  "portal_page st page hist req = Response \<lparr>status_code = st, resp_url = req_url req, resp_text = [], soup = page\<rparr>"

definition portal_down :: portal where
  "portal_down hist req = NetworkError"

definition client0 :: client where
  "client0 = \<lparr>base_url = ''https://portal.example'', is_authenticated = True, cookies = [],
     requests_sent = []\<rparr>"

definition no_page :: node where
  "no_page = Tag ''[document]'' [] []"

definition nothing_exists :: "string \<Rightarrow> path_status" where
  "nothing_exists path = PathAbsent"

definition long_question :: string where
  "long_question = replicate 601 (CHR ''a'')"

definition simple_urljoin :: "string \<Rightarrow> string \<Rightarrow> string option" where
  "simple_urljoin base h = Some (base @ h)"

definition page_question_only :: node where
  "page_question_only = Tag ''[document]'' []
     [Tag ''h1'' [(''class'', ''no-spacer-bottom'')] [Str ''E-consult''],
      Tag ''div'' [(''data-speech'', ''question'')]
        [Tag ''div'' [(''class'', ''content'')] [Str '' Is it flu? '']]]"

definition page_bare_question :: node where
  "page_bare_question = Tag ''[document]'' [] [Tag ''div'' [(''data-speech'', ''question'')] []]"

definition inbox_page :: node where
  "inbox_page = Tag ''[document]'' []
     [Tag ''div'' [(''id'', ''inbox'')]
        [Tag ''div'' [(''class'', ''button-list'')]
           [Tag ''a'' [(''href'', ''/en/safe/consult?id=14&date=2025-10-03''), (''data-reaction'', ''true'')]
              [Tag ''strong'' [] [Str ''E-consult''], Tag ''span'' [] [Str ''3 October 2025 15:56'']],
            Tag ''a'' [(''href'', ''/en/safe/archive''), (''data-reaction'', ''True'')]
              [Tag ''strong'' [] [Str ''Note'']]]]]"

section \<open>Properties of the poll and notify engine\<close>

subsection \<open>The loop over the listing\<close>

lemma diff_loop_ok:
  "list_all id_parses (answered_records ms) \<Longrightarrow>
   diff_loop cur ms hi new = Inr (Max (insert hi (set (answered_ids ms))), new @ new_records cur ms)"
proof (induction ms arbitrary: hi new)
  case Nil
  then show ?case by (simp add: answered_ids_def answered_records_def new_records_def)
next
  case (Cons m ms)
  show ?case
  proof (cases "answered m = Some True")
    case False
    then show ?thesis using Cons
      by (simp add: answered_ids_def answered_records_def new_records_def is_answered_def)
  next
    case True
    then obtain i where i: "py_int (msg_id m) = Inr i"
      using Cons.prems by (auto simp: answered_records_def is_answered_def id_parses_def split: sum.splits)
    have rest: "list_all id_parses (answered_records ms)"
      using Cons.prems True by (simp add: answered_records_def is_answered_def)
    have mx: "Max (insert (max hi i) (set (answered_ids ms))) = Max (insert hi (insert i (set (answered_ids ms))))"
      by (cases "set (answered_ids ms) = {}") (simp_all add: max.assoc)
    show ?thesis using True i Cons.IH[OF rest] mx
      by (simp add: answered_ids_def answered_records_def new_records_def is_answered_def ident_def insert_commute)
  qed
qed

lemma diff_loop_err:
  "m \<in> set ms \<Longrightarrow> is_answered m \<Longrightarrow> \<not> id_parses m \<Longrightarrow>
   \<exists>e. diff_loop cur ms hi new = Inl e \<and> (e = TypeError \<or> e = ValueError)"
proof (induction ms arbitrary: hi new)
  case Nil
  then show ?case by simp
next
  case (Cons a ms)
  have pe: "\<And>x e. py_int x = Inl e \<Longrightarrow> e = TypeError \<or> e = ValueError"
    by (auto simp: py_int_def split: option.splits)
  show ?case
  proof (cases "answered a = Some True")
    case False
    then have "m \<in> set ms" using Cons.prems by (auto simp: is_answered_def)
    then show ?thesis using Cons False by simp
  next
    case True
    show ?thesis
    proof (cases "py_int (msg_id a)")
      case (Inl e)
      then show ?thesis using True pe by simp
    next
      case (Inr i)
      then have "m \<noteq> a" using Cons.prems by (auto simp: id_parses_def)
      then have "m \<in> set ms" using Cons.prems by simp
      then show ?thesis using Cons True Inr by simp
    qed
  qed
qed

lemma diff_loop_Inr_parses:
  "diff_loop cur ms hi new = Inr r \<Longrightarrow> list_all id_parses (answered_records ms)"
proof (rule ccontr)
  assume a: "diff_loop cur ms hi new = Inr r" and n: "\<not> list_all id_parses (answered_records ms)"
  then obtain m where "m \<in> set ms" "is_answered m" "\<not> id_parses m"
    by (auto simp: list_all_iff answered_records_def)
  from diff_loop_err[OF this, of cur hi new] a show False by auto
qed

subsection \<open>The conversion on examples\<close>

lemma py_int_examples:
  "py_int None = Inl TypeError"
  "py_int (Some ''abc'') = Inl ValueError"
  "py_int (Some '''') = Inl ValueError"
  "py_int (Some ''5'') = Inr 5"
  "py_int (Some ''7'') = Inr 7"
  "py_int (Some ''9'') = Inr 9"
  "py_int (Some ''11'') = Inr 11"
  "py_int (Some ''14'') = Inr 14"
  "py_int (Some ''20'') = Inr 20"
  "py_int (Some ''-5'') = Inr (-5)"
  "py_int (Some '' 1_0 '') = Inr 10"
  by (simp_all add: py_int_def int_strip_def int_space_def is_digit_def digit_val_def
      parse_magnitude_def max_str_digits_def digits_to_int_def)

subsection \<open>The outcome of a cycle\<close>

lemma map_fst_send_all: "map fst (send_all snk k ms) = ms"
  by (induction ms arbitrary: k) (simp_all add: send_message_notification_def)

lemma observed_max_eq: "observed_max ms = Max (insert 0 (set (answered_ids ms)))"
  by (simp add: observed_max_def)

lemma check_completed:
  assumes "message_checker_running b" and "fetched env = Some ms" and "ms \<noteq> []"
    and "list_all id_parses (answered_records ms)"
  shows "check_for_new_messages b env =
    (b\<lparr>last_message_id := Some (observed_max ms),
       last_message_state_file :=
         save_last_message_state (disk_ok env) (observed_max ms) (last_message_state_file b)\<rparr>,
     send_all (sink env) 0 (rev (new_records (last_message_id b) ms)),
     Completed)"
  using assms diff_loop_ok[OF assms(4), of "last_message_id b" 0 "[]"]
  by (simp add: check_for_new_messages_def observed_max_def)

lemma check_aborted:
  assumes "message_checker_running b" and "fetched env = Some ms"
    and "\<not> list_all id_parses (answered_records ms)"
  shows "\<exists>e. check_for_new_messages b env = (b, [], CycleError e) \<and> (e = TypeError \<or> e = ValueError)"
proof -
  from assms(3) obtain m where m: "m \<in> set ms" "is_answered m" "\<not> id_parses m"
    by (auto simp: list_all_iff answered_records_def)
  then have ne: "ms \<noteq> []" by auto
  from diff_loop_err[OF m, of "last_message_id b" 0 "[]"]
  obtain e where "diff_loop (last_message_id b) ms 0 [] = Inl e" "e = TypeError \<or> e = ValueError"
    by blast
  then show ?thesis using assms(1,2) ne by (simp add: check_for_new_messages_def)
qed

lemma check_not_completed:
  assumes "check_for_new_messages b env = (b', sent, out)" and "out \<noteq> Completed"
  shows "b' = b \<and> sent = []"
  using assms
  by (auto simp: check_for_new_messages_def split: if_splits option.splits sum.splits prod.splits)

lemma check_completedD:
  assumes "check_for_new_messages b env = (b', sent, Completed)"
  shows "\<exists>ms. message_checker_running b \<and> fetched env = Some ms \<and> ms \<noteq> [] \<and>
           list_all id_parses (answered_records ms)"
  using assms diff_loop_Inr_parses
  by (auto simp: check_for_new_messages_def split: if_splits option.splits sum.splits prod.splits)

subsection \<open>Claims about one cycle\<close>

lemma summary_simps:
  "msg_id (summary i a) = i" "answered (summary i a) = a"
  by (simp_all add: summary_def)




lemma diff_loop_skip:
  "answered u \<noteq> Some True \<Longrightarrow>
   diff_loop cur (xs @ u # ys) hi new = diff_loop cur (xs @ ys) hi new"
  by (induction xs arbitrary: hi new) (simp_all split: sum.splits)

lemma diff_loop_swap_unanswered:
  "answered u \<noteq> Some True \<Longrightarrow> answered u' \<noteq> Some True \<Longrightarrow>
   diff_loop cur (xs @ u # ys) hi new = diff_loop cur (xs @ u' # ys) hi new"
  by (simp add: diff_loop_skip)

lemma new_records_answered: "m \<in> set (new_records cur ms) \<Longrightarrow> is_answered m"
  by (simp add: new_records_def answered_records_def)

lemma sent_answered:
  assumes "check_for_new_messages b env = (b', sent, out)" and "(m, d) \<in> set sent"
  shows "is_answered m \<and> truthy (last_message_id b) \<and> the (last_message_id b) < ident m"
proof (cases "out = Completed")
  case False
  with check_not_completed[OF assms(1)] assms(2) show ?thesis by simp
next
  case True
  with assms(1) check_completedD obtain ms where
    ms: "message_checker_running b" "fetched env = Some ms" "ms \<noteq> []"
        "list_all id_parses (answered_records ms)"
    by blast
  from check_completed[OF ms] assms(1)
  have "sent = send_all (sink env) 0 (rev (new_records (last_message_id b) ms))" by simp
  then have "map fst sent = rev (new_records (last_message_id b) ms)"
    by (simp add: map_fst_send_all)
  moreover have "m \<in> set (map fst sent)" using assms(2) by force
  ultimately have "m \<in> set (new_records (last_message_id b) ms)" by simp
  then show ?thesis by (simp add: new_records_def answered_records_def)
qed

text \<open>
  C7. Unanswered exclusion. A record whose \<open>answered\<close> flag is not true is never among
  the records handed to the notification sink, and it does not contribute to the maximum
  that becomes the cursor: replacing it by any other unanswered record (with any
  identifier, also one above the cursor) leaves the whole outcome of the cycle unchanged,
  and the cursor of a completed cycle is the maximum of 0 and the answered identifiers of
  the rest of the listing.
\<close>

theorem unanswered_excluded:
  assumes "answered u \<noteq> Some True" and "fetched env = Some (xs @ u # ys)"
    and "check_for_new_messages b env = (b', sent, out)"
  shows "u \<notin> fst ` set sent \<and>
         (answered u' \<noteq> Some True \<longrightarrow>
            check_for_new_messages b (env\<lparr>fetched := Some (xs @ u' # ys)\<rparr>) = (b', sent, out)) \<and>
         (out = Completed \<longrightarrow>
            last_message_id b' = Some (Max (insert 0 (set (answered_ids (xs @ ys))))))"
proof (intro conjI impI)
  show "u \<notin> fst ` set sent"
  proof
    assume "u \<in> fst ` set sent"
    then obtain d where "(u, d) \<in> set sent" by auto
    from sent_answered[OF assms(3) this] assms(1) show False by (simp add: is_answered_def)
  qed
next
  assume u': "answered u' \<noteq> Some True"
  have "check_for_new_messages b (env\<lparr>fetched := Some (xs @ u' # ys)\<rparr>) = check_for_new_messages b env"
    using assms(1,2) u' diff_loop_swap_unanswered[OF u' assms(1), of "last_message_id b" xs ys 0 "[]"]
    by (simp add: check_for_new_messages_def split: sum.splits)
  then show "check_for_new_messages b (env\<lparr>fetched := Some (xs @ u' # ys)\<rparr>) = (b', sent, out)"
    using assms(3) by simp
next
  assume "out = Completed"
  with assms(3) check_completedD obtain ms where
    ms: "message_checker_running b" "fetched env = Some ms" "ms \<noteq> []"
        "list_all id_parses (answered_records ms)"
    by blast
  from check_completed[OF ms] assms(3) have "last_message_id b' = Some (observed_max ms)"
    by auto
  moreover have "ms = xs @ u # ys" using ms(2) assms(2) by simp
  moreover have "answered_ids (xs @ u # ys) = answered_ids (xs @ ys)"
    using assms(1) by (simp add: answered_ids_def answered_records_def is_answered_def)
  ultimately show "last_message_id b' = Some (Max (insert 0 (set (answered_ids (xs @ ys)))))"
    by (simp add: observed_max_def)
qed

theorem unanswered_excluded_witness:
  "check_for_new_messages
     \<lparr>last_message_id = Some 9, last_message_state_file = StateJson (Some 9),
      message_checker_running = True\<rparr>
     \<lparr>fetched = Some ([summary (Some ''9'') (Some True)] @ summary (Some ''20'') (Some False) # []),
      sink = always_delivered, disk_ok = True\<rparr>
   = (\<lparr>last_message_id = Some 9, last_message_state_file = StateJson (Some 9),
       message_checker_running = True\<rparr>, [], Completed)
   \<and> summary (Some ''20'') (Some False) \<notin> fst ` set ([] :: (message \<times> delivery) list)
   \<and> check_for_new_messages
     \<lparr>last_message_id = Some 9, last_message_state_file = StateJson (Some 9),
      message_checker_running = True\<rparr>
     \<lparr>fetched = Some ([summary (Some ''9'') (Some True)] @ summary (Some ''abc'') None # []),
      sink = always_delivered, disk_ok = True\<rparr>
   = (\<lparr>last_message_id = Some 9, last_message_state_file = StateJson (Some 9),
       message_checker_running = True\<rparr>, [], Completed)"
proof -
  let ?b = "\<lparr>last_message_id = Some 9, last_message_state_file = StateJson (Some 9),
      message_checker_running = True\<rparr>"
  let ?env = "\<lparr>fetched = Some ([summary (Some ''9'') (Some True)] @ summary (Some ''20'') (Some False) # []),
      sink = always_delivered, disk_ok = True\<rparr>"
  have c: "check_for_new_messages ?b ?env = (?b, [], Completed)"
    by (simp add: check_for_new_messages_def summary_simps py_int_examples truthy_def
        save_last_message_state_def)
  have u: "answered (summary (Some ''20'') (Some False)) \<noteq> Some True"
    by (simp add: summary_simps)
  have u': "answered (summary (Some ''abc'') None) \<noteq> Some True"
    by (simp add: summary_simps)
  from unanswered_excluded[OF u _ c, of "[summary (Some ''9'') (Some True)]" "[]"
      "summary (Some ''abc'') None"] u' c
  show ?thesis by simp
qed











subsection \<open>Runs of cycles\<close>

lemma cursor_le_refl: "cursor_le x x"
  by (cases x) simp_all



lemma observed_max_ge_ident:
  "m \<in> set (answered_records ms) \<Longrightarrow> ident m \<le> observed_max ms"
  by (simp add: observed_max_def answered_ids_def)







lemma init_bot_cursor: "cursor_le (persisted (init_bot f)) (last_message_id (init_bot f))"
  by (simp add: persisted_def init_bot_def cursor_le_refl)


subsection \<open>Claims about runs of cycles\<close>

lemmas cycle_eval = check_for_new_messages_def summary_simps py_int_examples truthy_def
  save_last_message_state_def send_message_notification_def always_delivered_def fails_first_def



text \<open>
  C5 (amended). Delivery failures. In every cycle a failed delivery stops nothing: the
  records attempted are all the new records of the cycle, in the same order, whatever the
  outcomes of the attempts, and the state after the cycle does not depend on those
  outcomes. At the end of the cycle the cursor is at least the identifier of the record
  whose delivery failed, so no cycle that starts with a cursor at or above that identifier
  (the next cycle in particular) attempts that record again: the failure itself never
  causes a second delivery.
\<close>

theorem delivery_failure_does_not_stop_cycle:
  assumes "check_for_new_messages b env = (b', sent, out)" and "fetched env = Some ms"
    and "(m, DeliveryFailed) \<in> set sent"
  shows "map fst sent = rev (new_records (last_message_id b) ms) \<and>
         check_for_new_messages b (env\<lparr>sink := snk\<rparr>) = (b', send_all snk 0 (map fst sent), out) \<and>
         (\<exists>c'. last_message_id b' = Some c' \<and> ident m \<le> c') \<and>
         (last_message_id b2 = Some c2 \<and> ident m \<le> c2 \<and>
          check_for_new_messages b2 env2 = (b3, sent2, out2) \<and> (m2, d2) \<in> set sent2
            \<longrightarrow> ident m < ident m2)"
proof -
  have "out = Completed"
  proof (rule ccontr)
    assume "out \<noteq> Completed"
    from check_not_completed[OF assms(1) this] assms(3) show False by simp
  qed
  with assms(1) check_completedD obtain ms' where
    ms': "message_checker_running b" "fetched env = Some ms'" "ms' \<noteq> []"
        "list_all id_parses (answered_records ms')"
    by blast
  with assms(2) have ms: "message_checker_running b" "fetched env = Some ms" "ms \<noteq> []"
        "list_all id_parses (answered_records ms)" by simp_all
  note c = check_completed[OF ms]
  from c assms(1) have sent: "sent = send_all (sink env) 0 (rev (new_records (last_message_id b) ms))"
    and b': "b' = b\<lparr>last_message_id := Some (observed_max ms),
       last_message_state_file :=
         save_last_message_state (disk_ok env) (observed_max ms) (last_message_state_file b)\<rparr>"
    and out: "out = Completed"
    by simp_all
  have 1: "map fst sent = rev (new_records (last_message_id b) ms)"
    using sent by (simp add: map_fst_send_all)
  have 2: "check_for_new_messages b (env\<lparr>sink := snk\<rparr>) = (b', send_all snk 0 (map fst sent), out)"
    using check_completed[of b "env\<lparr>sink := snk\<rparr>" ms] ms b' out 1 by simp
  have "m \<in> set (map fst sent)" using assms(3) by force
  then have "m \<in> set (answered_records ms)" using 1 by (simp add: new_records_def)
  then have 3: "\<exists>c'. last_message_id b' = Some c' \<and> ident m \<le> c'"
    using b' observed_max_ge_ident by simp
  have 4: "ident m < ident m2"
    if "last_message_id b2 = Some c2" "ident m \<le> c2"
      "check_for_new_messages b2 env2 = (b3, sent2, out2)" "(m2, d2) \<in> set sent2"
    using sent_answered[OF that(3,4)] that(1,2) by simp
  show ?thesis using 1 2 3 4 by blast
qed

theorem delivery_failure_does_not_stop_cycle_witness:
  "check_for_new_messages
     \<lparr>last_message_id = Some 9, last_message_state_file = StateJson (Some 9),
      message_checker_running = True\<rparr>
     \<lparr>fetched = Some [summary (Some ''14'') (Some True), summary (Some ''11'') (Some True),
        summary (Some ''9'') (Some True)],
      sink = fails_first, disk_ok = True\<rparr>
   = (\<lparr>last_message_id = Some 14, last_message_state_file = StateJson (Some 14),
       message_checker_running = True\<rparr>,
      [(summary (Some ''11'') (Some True), DeliveryFailed),
       (summary (Some ''14'') (Some True), Delivered)], Completed) \<and>
   check_for_new_messages
     \<lparr>last_message_id = Some 9, last_message_state_file = StateJson (Some 9),
      message_checker_running = True\<rparr>
     \<lparr>fetched = Some [summary (Some ''14'') (Some True), summary (Some ''11'') (Some True),
        summary (Some ''9'') (Some True)],
      sink = never_delivered, disk_ok = True\<rparr>
   = (\<lparr>last_message_id = Some 14, last_message_state_file = StateJson (Some 14),
       message_checker_running = True\<rparr>,
      [(summary (Some ''11'') (Some True), DeliveryFailed),
       (summary (Some ''14'') (Some True), DeliveryFailed)], Completed)"
proof -
  let ?b = "\<lparr>last_message_id = Some 9, last_message_state_file = StateJson (Some 9),
      message_checker_running = True\<rparr>"
  let ?ms = "[summary (Some ''14'') (Some True), summary (Some ''11'') (Some True),
        summary (Some ''9'') (Some True)]"
  let ?env = "\<lparr>fetched = Some ?ms, sink = fails_first, disk_ok = True\<rparr>"
  have c: "check_for_new_messages ?b ?env =
    (\<lparr>last_message_id = Some 14, last_message_state_file = StateJson (Some 14),
       message_checker_running = True\<rparr>,
      [(summary (Some ''11'') (Some True), DeliveryFailed),
       (summary (Some ''14'') (Some True), Delivered)], Completed)"
    by (simp add: cycle_eval)
  have f: "fetched ?env = Some ?ms" by simp
  have m: "(summary (Some ''11'') (Some True), DeliveryFailed) \<in>
      set [(summary (Some ''11'') (Some True), DeliveryFailed),
       (summary (Some ''14'') (Some True), Delivered)]" by simp
  from delivery_failure_does_not_stop_cycle[OF c f m, of never_delivered] c
  show ?thesis by (simp add: never_delivered_def send_message_notification_def)
qed

text \<open>
  The claim as stated (a record whose delivery failed is never delivered again in a later
  cycle) fails once the cursor has moved backward: record 11 fails in the first cycle, the
  second cycle's listing lowers the cursor to 5, and the third cycle delivers record 11.
\<close>

theorem failed_record_sent_again_counterexample:
  "snd (run_cycles
     \<lparr>last_message_id = Some 9, last_message_state_file = StateJson (Some 9),
      message_checker_running = True\<rparr>
     [\<lparr>fetched = Some [summary (Some ''11'') (Some True)], sink = never_delivered, disk_ok = True\<rparr>,
      \<lparr>fetched = Some [summary (Some ''5'') (Some True)], sink = always_delivered, disk_ok = True\<rparr>,
      \<lparr>fetched = Some [summary (Some ''11'') (Some True), summary (Some ''5'') (Some True)],
       sink = always_delivered, disk_ok = True\<rparr>])
   = [[(summary (Some ''11'') (Some True), DeliveryFailed)], [],
      [(summary (Some ''11'') (Some True), Delivered)]]"
  by (simp add: cycle_eval never_delivered_def)

section \<open>Properties of the portal client\<close>

subsection \<open>The liveness probe\<close>

text \<open>
  C8. Probe classification. The liveness probe sends one GET for the protected page
  \<open>/en/safe\<close> with redirects not followed, and reports the session stale exactly when
  the request fails or the response has status 303; every other status is valid.
\<close>

theorem probe_classification:
  "(fst (is_session_valid p c) = False) =
     (p (requests_sent c) (probe_request c) = NetworkError \<or>
      (\<exists>r. p (requests_sent c) (probe_request c) = Response r \<and> status_code r = 303)) \<and>
   allow_redirects (probe_request c) = False \<and>
   req_method (probe_request c) = GET \<and>
   requests_sent (snd (is_session_valid p c)) = requests_sent c @ [probe_request c]"
  by (cases "p (requests_sent c) (probe_request c)")
     (simp_all add: is_session_valid_def session_get_def probe_request_def)

theorem probe_classification_witness:
  "fst (is_session_valid (portal_page 303 no_page) client0) = False \<and>
   fst (is_session_valid portal_down client0) = False \<and>
   fst (is_session_valid (portal_page 200 no_page) client0) = True \<and>
   fst (is_session_valid (portal_page 302 no_page) client0) = True \<and>
   fst (is_session_valid (portal_page 500 no_page) client0) = True"
  using probe_classification[of "portal_page 303 no_page" client0]
    probe_classification[of portal_down client0]
    probe_classification[of "portal_page 200 no_page" client0]
    probe_classification[of "portal_page 302 no_page" client0]
    probe_classification[of "portal_page 500 no_page" client0]
  by (simp add: portal_page_def portal_down_def)

subsection \<open>Loading the session snapshot\<close>

text \<open>
  Text that is not JSON is handled: the jar is cleared and the client stays
  unauthenticated.
\<close>

lemma load_session_decode_error:
  "load_session chk p (ReadRaises JSONDecodeError) c = Inr (c\<lparr>cookies := []\<rparr>)"
  by (simp add: load_session_def load_handler_def)

text \<open>
  C6. Session load robustness fails in the code: the handler of \<open>_load_session\<close> names
  JSONDecodeError and KeyError only. A snapshot that is valid JSON of the wrong shape (a
  list instead of an object, a cookie entry that is not an object, a \<open>cookies\<close> entry
  that is not iterable) raises AttributeError or TypeError to the caller, and so does a
  file that cannot be opened.
\<close>

theorem load_session_raises_on_wrong_shape:
  "load_session chk p (Holds (JArr [])) c = Inl AttributeError \<and>
   load_session chk p (Holds (JObj [(''cookies'', JArr [JNum 5])])) c = Inl TypeError \<and>
   load_session chk p (Holds (JObj [(''cookies'', JNull)])) c = Inl TypeError \<and>
   load_session chk p (ReadRaises OSError) c = Inl OSError"
  by (simp add: load_session_def load_handler_def get_cookies_def iterate_def)

subsection \<open>Asking a question\<close>

lemma length_long_question: "length long_question = 601"
  by (simp add: long_question_def)

lemma get_form_data_no_page: "get_form_data no_page = []"
  by (simp add: get_form_data_def find_all_def no_page_def)

lemma submission_ok_empty: "submission_ok [] = True"
  by (simp add: submission_ok_def py_lower_def)

lemma open_attachment_absent:
  "fs path = PathAbsent \<Longrightarrow> open_attachment fs (Some path) = open_attachment fs None"
  by (simp add: open_attachment_def)

lemma ask_question_absent_path:
  assumes "fs path = PathAbsent"
  shows "ask_question p fs c q d (Some path) = ask_question p fs c q d None"
  unfolding ask_question_def open_attachment_absent[of fs path, OF assms] by (rule refl)

text \<open>
  C2 (amended). Question validation. The command \<open>/ask\<close> rejects a question of more
  than 600 characters with the reply that it is too long, before any request to the portal
  (the client is unchanged). An attachment path that does not exist is not rejected by
  \<open>ask_question\<close>: the question is submitted exactly as if no path had been given.
\<close>

theorem ask_validation:
  "(authorized \<and> args \<noteq> [] \<and> length (py_join '' '' args) > 600 \<longrightarrow>
      ask_command p fs c authorized args = ([TooLongReply], c)) \<and>
   (fs path = PathAbsent \<longrightarrow>
      ask_question p fs c q d (Some path) = ask_question p fs c q d None)"
  by (simp add: ask_command_def ask_question_absent_path)

theorem ask_validation_witness:
  "ask_command (portal_page 200 no_page) nothing_exists client0 True [long_question]
     = ([TooLongReply], client0) \<and>
   requests_sent (snd (ask_command (portal_page 200 no_page) nothing_exists client0 True
     [long_question])) = [] \<and>
   ask_question (portal_page 200 no_page) nothing_exists client0 ''Is it flu?'' False
     (Some ''/tmp/scan.pdf'')
   = ask_question (portal_page 200 no_page) nothing_exists client0 ''Is it flu?'' False None"
  using ask_validation[of True "[long_question]" "portal_page 200 no_page" nothing_exists client0
      "''/tmp/scan.pdf''" "''Is it flu?''" False]
  by (simp add: length_long_question nothing_exists_def client0_def)

text \<open>
  The claim as stated fails for \<open>ask_question\<close>: with a question of 601 characters and
  an attachment path that does not exist it fetches the form, posts the question without
  attachment and returns \<open>True\<close>.
\<close>

theorem ask_question_not_validated_counterexample:
  "length long_question = 601 \<and> nothing_exists ''/tmp/scan.pdf'' = PathAbsent \<and>
   ask_question (portal_page 200 no_page) nothing_exists client0 long_question False
     (Some ''/tmp/scan.pdf'')
   = (True, client0\<lparr>requests_sent :=
        [\<lparr>req_method = GET, req_url = ''https://portal.example/en/consult'', req_data = [],
          req_file = None, allow_redirects = True, req_cookies = []\<rparr>,
         \<lparr>req_method = POST, req_url = ''https://portal.example/en/consult'',
          req_data = [(''question'', long_question), (''draft'', [])],
          req_file = None, allow_redirects = True, req_cookies = []\<rparr>]\<rparr>)"
  by (simp add: length_long_question nothing_exists_def ask_question_def client0_def
      session_get_def session_post_def portal_page_def raise_for_status_def
      get_form_data_no_page submission_ok_empty open_attachment_def)

subsection \<open>The detail page of a message\<close>

text \<open>
  C9 (amended). Extraction degradation. For a detail page fetched by an authenticated
  client (a response without error status, every attachment link accepted by
  \<open>urljoin\<close>), \<open>get_message_details\<close> returns a record, and a missing element leaves
  its field empty: without answer block the sender is absent and the answer empty; the
  question is the text of the content element of the question block, and empty when the
  block or its content element is missing; without date paragraph, main heading or
  attachment links the date, the subject and the attachments are empty.
\<close>

theorem detail_page_degrades:
  assumes "is_authenticated c" and "session_get p c message_url True = (Response r, c')"
    and "\<not> raise_for_status r"
    and "build_attachments urljoin (base_url c) (find_all attachment_link (soup r)) = Some atts"
  shows "\<exists>d. get_message_details urljoin p c message_url = (Some d, c') \<and>
           (answer_elem (soup r) = None \<longrightarrow> d_sender d = None \<and> d_answer d = []) \<and>
           (question_elem (soup r) = Some q \<longrightarrow>
              d_question d =
                (case find_tag (\<lambda>n. is_tag ''div'' n \<and> has_class ''content'' n) q of
                   None \<Rightarrow> [] | Some question_content \<Rightarrow> get_text question_content)) \<and>
           (question_elem (soup r) = None \<longrightarrow> d_question d = []) \<and>
           (find_tag (\<lambda>n. is_tag ''p'' n \<and> has_class ''small-spacer-bottom'' n) (soup r) = None
              \<longrightarrow> d_date d = None) \<and>
           (find_tag (\<lambda>n. is_tag ''h1'' n \<and> has_class ''no-spacer-bottom'' n) (soup r) = None
              \<longrightarrow> d_subject d = None) \<and>
           (find_all attachment_link (soup r) = [] \<longrightarrow> d_attachments d = [])"
  using assms
  by (auto simp: get_message_details_def extract_sender_def extract_answer_def
      extract_question_def extract_date_def extract_subject_def)

lemmas page_eval = find_tag_def find_all_def has_attr_value_def has_class_def get_text_def
  py_strip_def py_isspace_def question_elem_def answer_elem_def attachment_link_def

lemma page_question_only_blocks:
  "question_elem page_question_only =
     Some (Tag ''div'' [(''data-speech'', ''question'')]
        [Tag ''div'' [(''class'', ''content'')] [Str '' Is it flu? '']])"
  "answer_elem page_question_only = None"
  "find_all attachment_link page_question_only = []"
  by (simp_all add: page_eval page_question_only_def)

lemma page_bare_question_blocks:
  "question_elem page_bare_question = Some (Tag ''div'' [(''data-speech'', ''question'')] [])"
  "answer_elem page_bare_question = None"
  "find_all attachment_link page_bare_question = []"
  by (simp_all add: page_eval page_bare_question_def)

lemma content_of_example:
  "(case find_tag (\<lambda>n. is_tag ''div'' n \<and> has_class ''content'' n)
      (Tag ''div'' [(''data-speech'', ''question'')]
        [Tag ''div'' [(''class'', ''content'')] [Str '' Is it flu? '']]) of
      None \<Rightarrow> [] | Some question_content \<Rightarrow> get_text question_content) = ''Is it flu?''"
  by (simp add: page_eval)

theorem detail_page_degrades_witness:
  "\<exists>d. get_message_details simple_urljoin (portal_page 200 page_question_only) client0
          ''https://portal.example/en/safe/consult?id=5''
        = (Some d, client0\<lparr>requests_sent :=
             [\<lparr>req_method = GET, req_url = ''https://portal.example/en/safe/consult?id=5'',
               req_data = [], req_file = None, allow_redirects = True, req_cookies = []\<rparr>]\<rparr>) \<and>
        d_sender d = None \<and> d_answer d = [] \<and> d_question d = ''Is it flu?''"
proof -
  let ?r = "\<lparr>status_code = 200, resp_url = ''https://portal.example/en/safe/consult?id=5'',
      resp_text = [], soup = page_question_only\<rparr>"
  let ?c' = "client0\<lparr>requests_sent :=
             [\<lparr>req_method = GET, req_url = ''https://portal.example/en/safe/consult?id=5'',
               req_data = [], req_file = None, allow_redirects = True, req_cookies = []\<rparr>]\<rparr>"
  have a: "is_authenticated client0" by (simp add: client0_def)
  have g: "session_get (portal_page 200 page_question_only) client0
      ''https://portal.example/en/safe/consult?id=5'' True = (Response ?r, ?c')"
    by (simp add: session_get_def portal_page_def client0_def)
  have s: "\<not> raise_for_status ?r" by (simp add: raise_for_status_def)
  have b: "build_attachments simple_urljoin (base_url client0)
      (find_all attachment_link (soup ?r)) = Some []"
    by (simp add: page_question_only_blocks)
  from detail_page_degrades[OF a g s b,
      of "Tag ''div'' [(''data-speech'', ''question'')]
        [Tag ''div'' [(''class'', ''content'')] [Str '' Is it flu? '']]"]
  show ?thesis by (auto simp: page_question_only_blocks content_of_example)
qed

lemma extract_question_bare: "extract_question page_bare_question = []"
  by (simp add: extract_question_def page_bare_question_blocks find_tag_def find_all_def)

text \<open>
  The claim as stated (a page with a question block and no answer block gives a non-empty
  question) fails for a question block without content element: the question is empty.
\<close>

theorem bare_question_block_counterexample:
  "question_elem page_bare_question = Some (Tag ''div'' [(''data-speech'', ''question'')] []) \<and>
   answer_elem page_bare_question = None \<and>
   map_option d_question (fst (get_message_details simple_urljoin
      (portal_page 200 page_bare_question) client0
      ''https://portal.example/en/safe/consult?id=5'')) = Some []"
  by (simp add: page_bare_question_blocks get_message_details_def client0_def session_get_def
      portal_page_def raise_for_status_def extract_question_bare)

section \<open>The engine on a listing of the client\<close>

text \<open>
  The listing of an example page: its second entry links to no consult, so it has no
  identifier, and it is marked answered.
\<close>

lemma get_messages_sync_example:
  "fst (get_messages_sync simple_urljoin (portal_page 200 inbox_page) client0) =
     Some [\<lparr>msg_type = ''E-consult'', msg_date = Some ''3 October 2025'', msg_time = Some ''15:56'',
            msg_url = Some ''https://portal.example/en/safe/consult?id=14&date=2025-10-03'',
            msg_id = Some ''14'', subject = Some ''E-consult'', answered = Some True\<rparr>,
           \<lparr>msg_type = ''E-consult'', msg_date = None, msg_time = None, msg_url = None,
            msg_id = None, subject = Some ''Note'', answered = Some True\<rparr>]"
  by code_simp

text \<open>
  C10. A cycle whose listing holds an answered record with a missing or non-numeric
  identifier: the conversion raises in the loop over the listing, before any notification
  is sent; the exception is caught at the boundary of the cycle, which ends with no
  delivery attempt and with the cursor unchanged in memory and in the state file. (A cycle
  that does not reach the loop, because the worker is not running, changes nothing
  either.)
\<close>

theorem unparsable_identifier_aborts_cycle:
  assumes "fetched env = Some ms" and "m \<in> set ms" and "answered m = Some True"
    and "py_int (msg_id m) = Inl e"
  shows "\<exists>out. check_for_new_messages b env = (b, [], out) \<and>
           (message_checker_running b \<longrightarrow>
              (\<exists>e'. out = CycleError e' \<and> (e' = TypeError \<or> e' = ValueError)))"
proof (cases "message_checker_running b")
  case False
  then show ?thesis by (simp add: check_for_new_messages_def)
next
  case True
  have "\<not> list_all id_parses (answered_records ms)"
    using assms(2-4) by (auto simp: list_all_iff answered_records_def is_answered_def id_parses_def)
  from check_aborted[OF True assms(1) this] show ?thesis using True by auto
qed

theorem unparsable_identifier_aborts_cycle_witness:
  "\<exists>e'. check_for_new_messages
     \<lparr>last_message_id = Some 9, last_message_state_file = StateJson (Some 9),
      message_checker_running = True\<rparr>
     \<lparr>fetched = fst (get_messages_sync simple_urljoin (portal_page 200 inbox_page) client0),
      sink = always_delivered, disk_ok = True\<rparr>
   = (\<lparr>last_message_id = Some 9, last_message_state_file = StateJson (Some 9),
       message_checker_running = True\<rparr>, [], CycleError e')"
proof -
  let ?m = "\<lparr>msg_type = ''E-consult'', msg_date = None, msg_time = None, msg_url = None,
            msg_id = None, subject = Some ''Note'', answered = Some True\<rparr>"
  let ?ms = "[\<lparr>msg_type = ''E-consult'', msg_date = Some ''3 October 2025'', msg_time = Some ''15:56'',
            msg_url = Some ''https://portal.example/en/safe/consult?id=14&date=2025-10-03'',
            msg_id = Some ''14'', subject = Some ''E-consult'', answered = Some True\<rparr>, ?m]"
  let ?env = "\<lparr>fetched = fst (get_messages_sync simple_urljoin (portal_page 200 inbox_page) client0),
      sink = always_delivered, disk_ok = True\<rparr>"
  let ?b = "\<lparr>last_message_id = Some 9, last_message_state_file = StateJson (Some 9),
      message_checker_running = True\<rparr>"
  have f: "fetched ?env = Some ?ms" by (simp add: get_messages_sync_example)
  have m: "?m \<in> set ?ms" by simp
  have a: "answered ?m = Some True" by simp
  have i: "py_int (msg_id ?m) = Inl TypeError" by (simp add: py_int_def)
  from unparsable_identifier_aborts_cycle[OF f m a i, of ?b] show ?thesis by auto
qed

end
